theory Spec2Isabelle
  imports Complex_Main
begin

section \<open>Python values, dictionaries and errors\<close>

text \<open>
  The fusion code of \<^verbatim>\<open>services/ai_brain.py\<close> works on loosely typed dictionaries.
  A dictionary entry is a number, a string or \<^verbatim>\<open>None\<close>; a dictionary is a list of
  key/value pairs in insertion order, read with \<open>map_of\<close>, and it is falsy exactly when it
  is empty. Python floats are modelled by exact real arithmetic, except where the rounding
  of a result decides a label: there the operation is rounded to a double.
  Arithmetic or an ordering comparison on a value that is not a number raises
  \<^verbatim>\<open>TypeError\<close>; \<^verbatim>\<open>.get\<close> on an object that is not a dictionary raises
  \<^verbatim>\<open>AttributeError\<close>.
\<close>

datatype pyval = PNone | PNum real | PStr string

datatype error = TypeError | AttributeError | KeyError | ValueError

type_synonym pydict = "(string \<times> pyval) list"

text \<open>\<^verbatim>\<open>d.get(k, default)\<close>: the default is used only when the key is missing.\<close>

definition dict_get :: "pydict \<Rightarrow> string \<Rightarrow> pyval \<Rightarrow> pyval" where
  "dict_get d k dflt = (case map_of d k of None \<Rightarrow> dflt | Some v \<Rightarrow> v)"

text \<open>The operand of an arithmetic operation or of \<^verbatim>\<open><\<close>, \<^verbatim>\<open>>\<close> with a number.\<close>

fun num_of :: "pyval \<Rightarrow> error + real" where
  "num_of (PNum x) = Inr x"
| "num_of PNone = Inl TypeError"
| "num_of (PStr s) = Inl TypeError"

section \<open>Double precision\<close>

text \<open>
  Python's \<^verbatim>\<open>float\<close> is an IEEE 754 double: 53 significant bits, rounding to nearest with
  ties to even, exponents down to \<open>-1022\<close> (below that the spacing stays \<open>2 ^ -1074\<close>).
  A double is modelled by the real number it denotes. Where the rounding of a result decides
  a label, the operation is modelled with its rounding. Results beyond the largest double,
  which Python turns into \<^verbatim>\<open>inf\<close>, are outside this model; the scores lie between 0 and
  100.
\<close>

definition round_half_even :: "real \<Rightarrow> int" where
  "round_half_even y =
     (let f = \<lfloor>y\<rfloor>; d = y - of_int f
      in if d < 1 / 2 then f
         else if 1 / 2 < d then f + 1
         else if even f then f else f + 1)"

text \<open>
  The power of two at the bottom of the binade of \<open>a > 0\<close>: \<open>pow_up\<close> doubles \<open>p = 2 ^ e\<close>
  while \<open>2 * p \<le> a\<close>, \<open>pow_down\<close> halves it while \<open>a < p\<close>, down to \<open>2 ^ -1022\<close>.
\<close>

function pow_up :: "real \<Rightarrow> int \<Rightarrow> real \<Rightarrow> real" where
  "pow_up a e p = (if 1023 \<le> e \<or> a < 2 * p then p else pow_up a (e + 1) (2 * p))"
  by pat_completeness auto
termination
  by (relation "measure (\<lambda>(a, e, p). nat (1023 - e))") auto

function pow_down :: "real \<Rightarrow> int \<Rightarrow> real \<Rightarrow> real" where
  "pow_down a e p = (if e \<le> - 1022 \<or> p \<le> a then p else pow_down a (e - 1) (p / 2))"
  by pat_completeness auto
termination
  by (relation "measure (\<lambda>(a, e, p). nat (e + 1022))") auto

definition binade :: "real \<Rightarrow> real" where
  "binade a = (if 1 \<le> a then pow_up a 0 1 else pow_down a (- 1) (1 / 2))"

text \<open>
  The double nearest to \<open>x\<close>: \<open>x\<close> is rounded to a multiple of the spacing of its binade.
  A decimal literal denotes the double nearest to it, and the result of an arithmetic
  operation on doubles is the double nearest to the exact result.
\<close>

definition round_double :: "real \<Rightarrow> real" where
  "round_double x =
     (if x = 0 then 0
      else (let ulp = binade \<bar>x\<bar> / 2 ^ 52
            in ulp * of_int (round_half_even (x / ulp))))"

definition is_double :: "real \<Rightarrow> bool" where
  "is_double x = (round_double x = x)"

section \<open>Score fusion\<close>

record enhanced_score_result =
  enhanced_score :: real
  traditional_ai_score :: real
  cnn_ai_score :: real
  score_agreement :: string
  score_difference :: real
  score_fusion_method :: string

text \<open>
  \<^verbatim>\<open>_calculate_enhanced_environmental_score(traditional_score, cnn_score)\<close>:
  \<^verbatim>\<open>cnn_score * 0.6\<close> is evaluated first, then \<^verbatim>\<open>traditional_score * 0.4\<close>.
  The difference \<^verbatim>\<open>abs(traditional_score - cnn_score)\<close> decides the agreement tier, so it
  is the double that Python computes: the two scores are doubles (a number that is not one
  stands for the double nearest to it) and their difference is rounded to a double; taking
  the absolute value and comparing with 10 and 20 are exact. The weighted sum decides
  nothing and is kept in exact arithmetic.
\<close>

definition calculate_enhanced_environmental_score ::
  "pyval \<Rightarrow> pyval \<Rightarrow> error + enhanced_score_result" where
  "calculate_enhanced_environmental_score traditional_score cnn_score =
     (case num_of cnn_score of Inl e \<Rightarrow> Inl e | Inr c \<Rightarrow>
      (case num_of traditional_score of Inl e \<Rightarrow> Inl e | Inr t \<Rightarrow>
        (let enhanced = (c * 0.6) + (t * 0.4);
             difference = \<bar>round_double (round_double t - round_double c)\<bar>;
             confidence = (if difference < 10 then ''high''
                           else if difference < 20 then ''medium''
                           else ''low_agreement'')
         in Inr \<lparr> enhanced_score = enhanced,
                  traditional_ai_score = t,
                  cnn_ai_score = c,
                  score_agreement = confidence,
                  score_difference = difference,
                  score_fusion_method = ''weighted_ensemble'' \<rparr>)))"

text \<open>
  The strength of an agreement tier, used to compare tiers:
  \<^verbatim>\<open>high\<close> is stronger than \<^verbatim>\<open>medium\<close>, which is stronger than
  \<^verbatim>\<open>low_agreement\<close>.
\<close>

definition agreement_rank :: "string \<Rightarrow> nat" where
  "agreement_rank tier =
     (if tier = ''high'' then 2 else if tier = ''medium'' then 1 else 0)"

section \<open>Vegetation analysis of the vision side\<close>

text \<open>
  \<^verbatim>\<open>_classify_vegetation_from_cnn(health_score)\<close> of \<^verbatim>\<open>services/vision.py\<close>; the health
  score is the sigmoid output of the vegetation model, between 0 and 1.
\<close>

definition classify_vegetation_from_cnn :: "real \<Rightarrow> string" where
  "classify_vegetation_from_cnn health_score =
     (if health_score > 0.8 then ''excellent''
      else if health_score > 0.6 then ''good''
      else if health_score > 0.4 then ''moderate''
      else if health_score > 0.2 then ''poor''
      else ''critical'')"

text \<open>The entry \<^verbatim>\<open>cnn_results['vegetation']\<close> built by \<^verbatim>\<open>_run_cnn_models\<close>: three floats.\<close>

record vegetation_cnn =
  health_score :: real
  predicted_ndvi :: real
  biomass_estimate :: real

text \<open>
  The \<^verbatim>\<open>vegetation_analysis\<close> dictionary that \<^verbatim>\<open>_combine_cnn_and_location_analysis\<close> builds
  from \<^verbatim>\<open>cnn_results['vegetation']\<close>, and the one that \<^verbatim>\<open>_simulate_cnn_analysis\<close> returns
  when no satellite image is available.
\<close>

definition combine_vegetation_analysis :: "vegetation_cnn \<Rightarrow> pydict" where
  "combine_vegetation_analysis vegetation_cnn =
     [(''cnn_health_score'', PNum (health_score vegetation_cnn * 100)),
      (''cnn_predicted_ndvi'', PNum (predicted_ndvi vegetation_cnn)),
      (''cnn_biomass_estimate'', PNum (biomass_estimate vegetation_cnn)),
      (''vegetation_status'', PStr (classify_vegetation_from_cnn (health_score vegetation_cnn))),
      (''source'', PStr ''CNN_satellite_analysis'')]"

definition simulate_vegetation_analysis :: pydict where
  "simulate_vegetation_analysis =
     [(''cnn_health_score'', PNone),
      (''cnn_predicted_ndvi'', PNone),
      (''cnn_biomass_estimate'', PNone),
      (''vegetation_status'', PStr ''unknown - no satellite data''),
      (''source'', PStr ''no_real_satellite_available'')]"

section \<open>Vegetation fusion\<close>

record traditional_ai_input =
  ti_health :: real
  ti_status :: string
  ti_source :: string

record cnn_ai_input =
  ci_ndvi :: pyval
  ci_health :: real
  ci_status :: pyval
  ci_biomass :: pyval
  ci_source :: string

record fusion_weights =
  cnn_weight :: real
  traditional_weight :: real
  rationale :: string

record fused_vegetation =
  fused_ndvi :: pyval
  fused_health_score :: real
  consensus_status :: pyval
  fusion_confidence :: string
  traditional_ai_input :: traditional_ai_input
  cnn_ai_input :: cnn_ai_input
  fusion_method :: string
  fusion_weights :: fusion_weights

text \<open>
  \<^verbatim>\<open>_fuse_vegetation_analysis(traditional_veg, cnn_veg)\<close>. The traditional record is
  \<^verbatim>\<open>None\<close> when the vegetation provider failed, and \<^verbatim>\<open>None.get\<close> raises
  \<^verbatim>\<open>AttributeError\<close>. In the weighted sum \<^verbatim>\<open>cnn_health * cnn_weight\<close> is evaluated before
  \<^verbatim>\<open>traditional_health * traditional_weight\<close>.
\<close>

definition fuse_vegetation_analysis :: "pydict option \<Rightarrow> pydict \<Rightarrow> error + fused_vegetation" where
  "fuse_vegetation_analysis traditional_veg cnn_veg =
     (case traditional_veg of None \<Rightarrow> Inl AttributeError | Some tveg \<Rightarrow>
      (let traditional_health = dict_get tveg ''vegetation_health'' (PNum 50);
           cnn_health = dict_get cnn_veg ''cnn_health_score'' (PNum 50);
           cnn_ndvi = dict_get cnn_veg ''cnn_predicted_ndvi'' (PNum 0.5);
           cnn_w = 0.7;
           traditional_w = 0.3
       in case num_of cnn_health of Inl e \<Rightarrow> Inl e | Inr ch \<Rightarrow>
         (case num_of traditional_health of Inl e \<Rightarrow> Inl e | Inr th \<Rightarrow>
           (let fused_n = cnn_ndvi;
                fused_health = (ch * cnn_w) + (th * traditional_w);
                traditional_status = (if th > 60 then ''good''
                                      else if th > 30 then ''moderate'' else ''poor'');
                cnn_status = dict_get cnn_veg ''vegetation_status'' (PStr ''moderate'');
                (consensus, confidence) =
                  (if PStr traditional_status = cnn_status
                   then (PStr traditional_status, ''high'')
                   else (cnn_status, ''medium''))
            in Inr \<lparr> fused_ndvi = fused_n,
                     fused_health_score = fused_health,
                     consensus_status = consensus,
                     fusion_confidence = confidence,
                     traditional_ai_input =
                       \<lparr> ti_health = th, ti_status = traditional_status,
                         ti_source = ''environmental_modeling'' \<rparr>,
                     cnn_ai_input =
                       \<lparr> ci_ndvi = cnn_ndvi, ci_health = ch, ci_status = cnn_status,
                         ci_biomass = dict_get cnn_veg ''cnn_biomass_estimate'' (PNum 0),
                         ci_source = ''cnn_satellite_analysis'' \<rparr>,
                     fusion_method = ''weighted_consensus_algorithm'',
                     fusion_weights =
                       \<lparr> cnn_weight = cnn_w, traditional_weight = traditional_w,
                         rationale = ''CNN excels at visual pattern recognition, Traditional AI at environmental context'' \<rparr> \<rparr>))))"

section \<open>The traditional reading and its score\<close>

record traditional_data =
  air_quality :: "pydict option"
  weather :: "pydict option"
  vegetation :: "pydict option"
  water_quality :: "pydict option"
  uv_data :: "pydict option"
  environmental_score :: pyval
  latitude :: real
  longitude :: real

text \<open>
  \<^verbatim>\<open>x.get(key, default) if x else None\<close>: a provider result that is \<^verbatim>\<open>None\<close> or an empty
  dictionary is falsy.
\<close>

definition get_if_present :: "pydict option \<Rightarrow> string \<Rightarrow> pyval \<Rightarrow> pyval" where
  "get_if_present x k dflt =
     (case x of None \<Rightarrow> PNone
      | Some d \<Rightarrow> (if d \<noteq> [] then dict_get d k dflt else PNone))"

text \<open>
  \<^verbatim>\<open>_get_traditional_environmental_data(lat, lon)\<close>, as a function of what the five provider
  calls returned. The \<^verbatim>\<open>timestamp\<close> entry is left out.
\<close>

definition get_traditional_environmental_data ::
  "pydict option \<Rightarrow> pydict option \<Rightarrow> pydict option \<Rightarrow> pydict option \<Rightarrow> pydict option
     \<Rightarrow> real \<Rightarrow> real \<Rightarrow> error + traditional_data" where
  "get_traditional_environmental_data air_q weath veg water uv lat lon =
     (let aqi = get_if_present air_q ''aqi'' (PNum 50);
          temp = get_if_present weath ''temperature'' (PNum 20);
          veg_health = get_if_present veg ''vegetation_health'' (PNum 50);
          env_score =
            (if aqi \<noteq> PNone \<and> temp \<noteq> PNone \<and> veg_health \<noteq> PNone
             then (case num_of aqi of Inl e \<Rightarrow> Inl e | Inr a \<Rightarrow>
                  (case num_of veg_health of Inl e \<Rightarrow> Inl e | Inr v \<Rightarrow>
                  (case num_of temp of Inl e \<Rightarrow> Inl e | Inr t \<Rightarrow>
                     Inr (PNum ((100 - max 0 (a - 50)) * 0.3 + v * 0.5
                                + max 0 (50 - \<bar>t - 22\<bar>) * 0.2)))))
             else Inr PNone)
      in case env_score of Inl e \<Rightarrow> Inl e | Inr sc \<Rightarrow>
           Inr \<lparr> air_quality = air_q, weather = weath, vegetation = veg,
                 water_quality = water, uv_data = uv, environmental_score = sc,
                 latitude = lat, longitude = lon \<rparr>)"

section \<open>Risk fusion\<close>

text \<open>
  A risk is a dictionary with a \<^verbatim>\<open>type\<close> and a \<^verbatim>\<open>severity\<close>. The vision side hands over
  \<^verbatim>\<open>cnn_data['environmental_risks']\<close>: a dictionary that may hold the list
  \<^verbatim>\<open>detected_risks\<close>, or, from \<^verbatim>\<open>_simulate_cnn_analysis\<close>, a bare list.
\<close>

datatype cnn_risks = RiskDict "pydict list option" | RiskList "pydict list"

fun detected_risks_get :: "cnn_risks \<Rightarrow> error + pydict list" where
  "detected_risks_get (RiskDict None) = Inr []"
| "detected_risks_get (RiskDict (Some rs)) = Inr rs"
| "detected_risks_get (RiskList rs) = Inl AttributeError"

record combined_risks =
  all_detected_risks :: "pydict list"
  traditional_ai_risks :: "pydict list"
  cnn_ai_risks :: "pydict list"
  combined_risk_level :: string
  total_risks_detected :: nat
  consensus_risks :: "pydict list"

definition traditional_risk :: "string \<Rightarrow> string \<Rightarrow> pydict" where
  "traditional_risk ty sev =
     [(''type'', PStr ty), (''severity'', PStr sev),
      (''detection_method'', PStr ''traditional_environmental_ai'')]"

text \<open>\<^verbatim>\<open>d.get(key, default)\<close> on an entry of \<^verbatim>\<open>traditional_data\<close> that may be \<^verbatim>\<open>None\<close>.\<close>

definition record_get :: "pydict option \<Rightarrow> string \<Rightarrow> pyval \<Rightarrow> error + pyval" where
  "record_get x k dflt =
     (case x of None \<Rightarrow> Inl AttributeError | Some d \<Rightarrow> Inr (dict_get d k dflt))"

text \<open>\<^verbatim>\<open>_combine_risk_assessments(traditional_data, cnn_risks)\<close>.\<close>

definition combine_risk_assessments :: "traditional_data \<Rightarrow> cnn_risks \<Rightarrow> error + combined_risks" where
  "combine_risk_assessments td risks =
     (case record_get (air_quality td) ''aqi'' (PNum 50) of Inl e \<Rightarrow> Inl e | Inr aqi_v \<Rightarrow>
     (case record_get (weather td) ''temperature'' (PNum 20) of Inl e \<Rightarrow> Inl e | Inr temp_v \<Rightarrow>
     (case record_get (vegetation td) ''vegetation_health'' (PNum 50) of Inl e \<Rightarrow> Inl e | Inr veg_v \<Rightarrow>
     (case num_of aqi_v of Inl e \<Rightarrow> Inl e | Inr aqi \<Rightarrow>
     (case num_of temp_v of Inl e \<Rightarrow> Inl e | Inr temp \<Rightarrow>
     (case num_of veg_v of Inl e \<Rightarrow> Inl e | Inr veg_health \<Rightarrow>
     (case detected_risks_get risks of Inl e \<Rightarrow> Inl e | Inr detected \<Rightarrow>
       (let traditional_risks =
              (if aqi > 100
               then [traditional_risk ''air_pollution'' (if aqi > 150 then ''high'' else ''moderate'')]
               else [])
            @ (if temp > 35 \<or> temp < - 10
               then [traditional_risk ''temperature_stress''
                       (if temp > 40 \<or> temp < - 20 then ''high'' else ''moderate'')]
               else [])
            @ (if veg_health < 30
               then [traditional_risk ''vegetation_decline''
                       (if veg_health < 15 then ''high'' else ''moderate'')]
               else []);
            all_risks = traditional_risks @ detected;
            risk_count = length all_risks;
            combined_level = (if risk_count > 2 then ''high''
                              else if risk_count > 0 then ''moderate'' else ''low'')
        in Inr \<lparr> all_detected_risks = all_risks,
                 traditional_ai_risks = traditional_risks,
                 cnn_ai_risks = detected,
                 combined_risk_level = combined_level,
                 total_risks_detected = risk_count,
                 consensus_risks = [] \<rparr>))))))))"

section \<open>Recommendations and fusion confidence\<close>

text \<open>\<^verbatim>\<open>d[key] = value\<close>: an existing key keeps its place, a new key goes last.\<close>

fun dict_set :: "pydict \<Rightarrow> string \<Rightarrow> pyval \<Rightarrow> pydict" where
  "dict_set [] k v = [(k, v)]"
| "dict_set ((k', v') # d) k v = (if k' = k then (k, v) # d else (k', v') # dict_set d k v)"

record enhanced_conservation =
  enhanced_recommendations :: "pydict list"
  total_recommendations :: nat
  fusion_approach :: string

text \<open>\<^verbatim>\<open>_enhance_conservation_recommendations(cnn_recs)\<close>.\<close>

definition enhance_conservation_recommendations :: "pydict list \<Rightarrow> enhanced_conservation" where
  "enhance_conservation_recommendations cnn_recs =
     (let enhanced =
            map (\<lambda>rec. dict_set (dict_set rec ''source'' (PStr ''cnn_satellite_analysis''))
                          ''enhancement'' (PStr ''visual_pattern_based'')) cnn_recs
            @ [[(''priority'', PStr ''medium''),
                (''action'', PStr ''Implement environmental monitoring system''),
                (''source'', PStr ''hybrid_intelligence''),
                (''enhancement'', PStr ''multi_modal_analysis'')],
               [(''priority'', PStr ''low''),
                (''action'', PStr ''Establish community environmental awareness program''),
                (''source'', PStr ''hybrid_intelligence''),
                (''enhancement'', PStr ''stakeholder_engagement'')]]
      in \<lparr> enhanced_recommendations = take 5 enhanced,
           total_recommendations = length enhanced,
           fusion_approach = ''multi_modal_conservation_strategy'' \<rparr>)"

text \<open>
  The vision result as the fusion reads it. Entries the fusion never reads (water and urban
  analysis, raw outputs, metadata) are left out; \<^verbatim>\<open>cnn_confidence\<close> maps a model name to a
  tag and may be missing.
\<close>

record cnn_data =
  vegetation_analysis :: pydict
  environmental_risks :: cnn_risks
  conservation_priorities :: "pydict list"
  cnn_environmental_score :: pyval
  cnn_confidence :: "(string \<times> string) list option"

text \<open>\<^verbatim>\<open>_simulate_cnn_analysis(lat, lon)\<close>: what the vision side returns without an image.\<close>

definition simulate_cnn_analysis :: "real \<Rightarrow> real \<Rightarrow> cnn_data" where
  "simulate_cnn_analysis lat lon =
     \<lparr> vegetation_analysis = simulate_vegetation_analysis,
       environmental_risks = RiskList [],
       conservation_priorities = [],
       cnn_environmental_score = PNone,
       cnn_confidence = Some [(''vegetation_model'', ''unavailable''),
                              (''water_detection'', ''unavailable''),
                              (''urban_classification'', ''unavailable''),
                              (''deforestation_detection'', ''unavailable'')] \<rparr>"

record fusion_confidence_result =
  overall_fusion_confidence :: string
  score_agreement_percentage :: real
  traditional_ai_data_quality :: string
  cnn_confidence_summary :: string
  cnn_confidence_by_model :: "(string \<times> string) list"
  fusion_algorithm_reliability :: string
  multi_modal_validation :: string

text \<open>\<^verbatim>\<open>", ".join(parts)\<close>.\<close>

fun join_comma :: "string list \<Rightarrow> string" where
  "join_comma [] = []"
| "join_comma [x] = x"
| "join_comma (x # y # ys) = x @ '', '' @ join_comma (y # ys)"

text \<open>\<^verbatim>\<open>_calculate_fusion_confidence(traditional_data, cnn_data)\<close>.\<close>

definition calculate_fusion_confidence ::
  "traditional_data \<Rightarrow> cnn_data \<Rightarrow> error + fusion_confidence_result" where
  "calculate_fusion_confidence td cd =
     (case num_of (environmental_score td) of Inl e \<Rightarrow> Inl e | Inr t \<Rightarrow>
     (case num_of (cnn_environmental_score cd) of Inl e \<Rightarrow> Inl e | Inr c \<Rightarrow>
       (let agreement = max 0 (min 100 (100 - \<bar>t - c\<bar>));
            conf = (case cnn_confidence cd of None \<Rightarrow> [] | Some m \<Rightarrow> m);
            summary =
              (if conf \<noteq> []
               then join_comma
                      (map (\<lambda>(key, value).
                              map (\<lambda>ch. if ch = CHR ''_'' then CHR '' '' else ch) key
                              @ '': '' @ value) conf)
               else ''unavailable'')
        in Inr \<lparr> overall_fusion_confidence =
                   (if agreement > 80 then ''high''
                    else if agreement > 60 then ''medium'' else ''low''),
                 score_agreement_percentage = agreement,
                 traditional_ai_data_quality = ''real_apis'',
                 cnn_confidence_summary = summary,
                 cnn_confidence_by_model = conf,
                 fusion_algorithm_reliability = ''high'',
                 multi_modal_validation = ''enabled'' \<rparr>)))"

section \<open>The fusion engine\<close>

record fused_analysis =
  enhanced_analysis_type :: string
  location :: "real \<times> real"
  fused_vegetation_analysis :: fused_vegetation
  enhanced_environmental_score :: enhanced_score_result
  combined_risk_assessment :: combined_risks
  enhanced_conservation_priorities :: enhanced_conservation
  traditional_ai_analysis :: traditional_data
  cnn_analysis :: cnn_data
  fusion_confidence_metrics :: fusion_confidence_result

text \<open>
  \<^verbatim>\<open>_fuse_traditional_and_cnn_analysis(traditional_data, cnn_data, lat, lon)\<close>: the five parts
  are computed in the order of the source, and the first exception ends the fusion. The
  constant \<^verbatim>\<open>data_integration_flow\<close> and the \<^verbatim>\<open>timestamp\<close> are left out of the result.
\<close>

definition fuse_traditional_and_cnn_analysis ::
  "traditional_data \<Rightarrow> cnn_data \<Rightarrow> real \<Rightarrow> real \<Rightarrow> error + fused_analysis" where
  "fuse_traditional_and_cnn_analysis td cd lat lon =
     (case fuse_vegetation_analysis (vegetation td) (vegetation_analysis cd) of
        Inl e \<Rightarrow> Inl e | Inr fused_veg \<Rightarrow>
     (case calculate_enhanced_environmental_score (environmental_score td)
             (cnn_environmental_score cd) of
        Inl e \<Rightarrow> Inl e | Inr enhanced \<Rightarrow>
     (case combine_risk_assessments td (environmental_risks cd) of
        Inl e \<Rightarrow> Inl e | Inr risks \<Rightarrow>
     (case calculate_fusion_confidence td cd of
        Inl e \<Rightarrow> Inl e | Inr confidence \<Rightarrow>
       Inr \<lparr> enhanced_analysis_type = ''traditional_ai_plus_cnn_fusion'',
             location = (lat, lon),
             fused_vegetation_analysis = fused_veg,
             enhanced_environmental_score = enhanced,
             combined_risk_assessment = risks,
             enhanced_conservation_priorities =
               enhance_conservation_recommendations (conservation_priorities cd),
             traditional_ai_analysis = td,
             cnn_analysis = cd,
             fusion_confidence_metrics = confidence \<rparr>))))"

section \<open>Coordinates at the \<^verbatim>\<open>/analyze\<close> endpoint\<close>

text \<open>
  The parsed JSON body of a request. An object holds its members with distinct keys.
  Python's truth value of a JSON value: \<^verbatim>\<open>None\<close>, \<^verbatim>\<open>False\<close>, zero, the empty string,
  the empty list and the empty dictionary are falsy.
\<close>

datatype json = JNull | JBool bool | JNum real | JStr string
  | JArr "json list" | JObj "(string \<times> json) list"

fun truthy :: "json \<Rightarrow> bool" where
  "truthy JNull = False"
| "truthy (JBool b) = b"
| "truthy (JNum x) = (x \<noteq> 0)"
| "truthy (JStr s) = (s \<noteq> [])"
| "truthy (JArr xs) = (xs \<noteq> [])"
| "truthy (JObj kvs) = (kvs \<noteq> [])"

text \<open>\<^verbatim>\<open>data.get(key, default)\<close>; only a dictionary has \<^verbatim>\<open>.get\<close>.\<close>

fun json_get :: "json \<Rightarrow> string \<Rightarrow> json \<Rightarrow> error + json" where
  "json_get (JObj kvs) k dflt = Inr (case map_of kvs k of None \<Rightarrow> dflt | Some v \<Rightarrow> v)"
| "json_get JNull k dflt = Inl AttributeError"
| "json_get (JBool b) k dflt = Inl AttributeError"
| "json_get (JNum x) k dflt = Inl AttributeError"
| "json_get (JStr s) k dflt = Inl AttributeError"
| "json_get (JArr xs) k dflt = Inl AttributeError"

text \<open>
  \<^verbatim>\<open>data.get(long_key) or data.get(short_key, default)\<close>: the second lookup is made only
  when the first value is falsy.
\<close>

definition get_coordinate :: "json \<Rightarrow> string \<Rightarrow> string \<Rightarrow> real \<Rightarrow> error + json" where
  "get_coordinate data long_key short_key dflt =
     (case json_get data long_key JNull of Inl e \<Rightarrow> Inl e
      | Inr v \<Rightarrow> (if truthy v then Inr v else json_get data short_key (JNum dflt)))"

text \<open>
  The format \<^verbatim>\<open>{lat:.3f}\<close> accepts a number (a Boolean counts as 0 or 1) and raises on
  anything else; the value the number has in later arithmetic is returned.
\<close>

fun format_3f :: "json \<Rightarrow> error + real" where
  "format_3f (JNum x) = Inr x"
| "format_3f (JBool b) = Inr (if b then 1 else 0)"
| "format_3f (JStr s) = Inl ValueError"
| "format_3f JNull = Inl TypeError"
| "format_3f (JArr xs) = Inl TypeError"
| "format_3f (JObj kvs) = Inl TypeError"

text \<open>
  The head of \<^verbatim>\<open>analyze_environment()\<close> in \<^verbatim>\<open>main.py\<close>: from the request body to the
  latitude and longitude handed to \<^verbatim>\<open>location_service.get_location_name\<close> and to
  \<^verbatim>\<open>ai_brain.get_enhanced_comprehensive_analysis\<close>. An exception here is caught by the
  endpoint and answered with status 500.
\<close>

definition analyze_environment_coordinates :: "json \<Rightarrow> error + real \<times> real" where
  "analyze_environment_coordinates data =
     (case get_coordinate data ''latitude'' ''lat'' 40.7128 of Inl e \<Rightarrow> Inl e | Inr lat \<Rightarrow>
     (case get_coordinate data ''longitude'' ''lon'' (- 74.0060) of Inl e \<Rightarrow> Inl e | Inr lon \<Rightarrow>
     (case format_3f lat of Inl e \<Rightarrow> Inl e | Inr la \<Rightarrow>
     (case format_3f lon of Inl e \<Rightarrow> Inl e | Inr lo \<Rightarrow> Inr (la, lo)))))"

section \<open>Tile coordinates of the satellite layer\<close>

text \<open>The table \<^verbatim>\<open>_gibs_tile_matrix_metadata\<close>: matrix set, zoom, (width, height).\<close>

definition gibs_tile_matrix_metadata :: "(string \<times> (int \<times> int \<times> int) list) list" where
  "gibs_tile_matrix_metadata =
     [(''250m'', [(0, 2, 1), (1, 3, 2), (2, 5, 3), (3, 10, 5), (4, 20, 10), (5, 40, 20),
                  (6, 80, 40), (7, 160, 80), (8, 320, 160)]),
      (''1km'', [(0, 2, 1), (1, 3, 2), (2, 5, 3), (3, 10, 5), (4, 20, 10), (5, 40, 20),
                 (6, 80, 40)])]"

text \<open>Python's \<^verbatim>\<open>x % m\<close> for a positive \<open>m\<close>, and \<^verbatim>\<open>int(x)\<close>, which truncates towards zero.\<close>

definition py_mod :: "real \<Rightarrow> real \<Rightarrow> real" where
  "py_mod x m = x - m * of_int \<lfloor>x / m\<rfloor>"

definition py_int :: "real \<Rightarrow> int" where
  "py_int x = (if x \<ge> 0 then \<lfloor>x\<rfloor> else \<lceil>x\<rceil>)"

text \<open>\<^verbatim>\<open>_deg2tile_epsg4326(lat, lon, matrix_id, zoom)\<close> of \<^verbatim>\<open>services/satellite.py\<close>.\<close>

definition deg2tile_epsg4326 :: "real \<Rightarrow> real \<Rightarrow> string \<Rightarrow> int \<Rightarrow> (int \<times> int) option" where
  "deg2tile_epsg4326 lat lon matrix_id zoom =
     (let lat' = max (min lat 90) (- 90);
          lon' = py_mod (lon + 180) 360 - 180;
          matrix_info = (case map_of gibs_tile_matrix_metadata matrix_id of
                           None \<Rightarrow> [] | Some m \<Rightarrow> m)
      in case map_of matrix_info zoom of
           None \<Rightarrow> None
         | Some (matrix_width, matrix_height) \<Rightarrow>
             (let x = py_int ((lon' + 180) / 360 * of_int matrix_width);
                  y = py_int ((90 - lat') / 180 * of_int matrix_height);
                  x' = max 0 (min x (matrix_width - 1));
                  y' = max 0 (min y (matrix_height - 1))
              in Some (x', y')))"

section \<open>Risks of the vision side\<close>

text \<open>The \<^verbatim>\<open>type\<close> entry of a risk dictionary, if it has one.\<close>

definition risk_type :: "pydict \<Rightarrow> pyval option" where
  "risk_type risk = map_of risk ''type''"

text \<open>
  The model outputs \<^verbatim>\<open>cnn_results\<close> that \<^verbatim>\<open>_run_cnn_models\<close> builds: the vegetation
  entry and three probabilities, all floats.
\<close>

record cnn_results =
  vegetation_out :: vegetation_cnn
  water_presence_probability :: real
  urban_probability :: real
  deforestation_risk :: real

text \<open>A risk dictionary as the vision side writes it.\<close>

definition cnn_risk :: "string \<Rightarrow> string \<Rightarrow> real \<Rightarrow> string \<Rightarrow> pydict" where
  "cnn_risk ty sev conf descr =
     [(''type'', PStr ty), (''severity'', PStr sev),
      (''cnn_confidence'', PNum conf), (''description'', PStr descr)]"

text \<open>
  \<^verbatim>\<open>_assess_cnn_environmental_risks(cnn_results, location_context)\<close> of
  \<^verbatim>\<open>services/vision.py\<close>, the only producer of \<^verbatim>\<open>detected_risks\<close>. The location context
  is not read. Python's number format \<^verbatim>\<open>.1f\<close>, used in one description, is the parameter
  \<open>format_1f\<close>. Of the returned dictionary the fusion reads \<^verbatim>\<open>detected_risks\<close> only; the
  entries \<^verbatim>\<open>overall_risk_level\<close> and \<^verbatim>\<open>cnn_risk_assessment\<close> are not carried along.
\<close>

definition assess_cnn_environmental_risks :: "(real \<Rightarrow> string) \<Rightarrow> cnn_results \<Rightarrow> cnn_risks" where
  "assess_cnn_environmental_risks format_1f results =
     (let veg_health = health_score (vegetation_out results);
          deforest_risk = deforestation_risk results;
          water_presence = water_presence_probability results;
          urban_prob = urban_probability results;
          risks =
              (if veg_health < 0.3
               then [cnn_risk ''vegetation_degradation''
                       (if veg_health < 0.15 then ''high'' else ''moderate'') 0.9
                       ''CNN detected significant vegetation health decline'']
               else [])
            @ (if deforest_risk > 0.5
               then [cnn_risk ''deforestation_detected''
                       (if deforest_risk > 0.7 then ''high'' else ''moderate'') 0.85
                       (''CNN detected '' @ format_1f (deforest_risk * 100)
                          @ ''% deforestation probability'')]
               else [])
            @ (if water_presence < 0.2
               then [cnn_risk ''water_scarcity''
                       (if water_presence < 0.1 then ''high'' else ''moderate'') 0.8
                       ''CNN detected low water body presence'']
               else [])
            @ (if urban_prob > 0.7 \<and> veg_health < 0.5
               then [cnn_risk ''urban_environmental_pressure'' ''moderate'' 0.75
                       ''High urban development with declining vegetation'']
               else [])
      in RiskDict (Some risks))"

section \<open>Readings as the providers return them\<close>


section \<open>Theorems\<close>

subsection \<open>Rounding to a double\<close>

text \<open>
  Rounding moves a number by at most half the spacing of its binade, which is at most
  \<open>2 ^ -53\<close> times its size.
\<close>

lemma round_half_even_error: "\<bar>of_int (round_half_even y) - y\<bar> \<le> 1 / 2"
proof -
  have "of_int \<lfloor>y\<rfloor> \<le> y" "y < of_int \<lfloor>y\<rfloor> + 1" by linarith+
  then show ?thesis
    by (auto simp: round_half_even_def Let_def)
qed

lemma pow_up_bounds: "0 < p \<Longrightarrow> p \<le> a \<Longrightarrow> 0 < pow_up a e p \<and> pow_up a e p \<le> a"
proof (induction a e p rule: pow_up.induct)
  case (1 a e p)
  show ?case
  proof (cases "1023 \<le> e \<or> a < 2 * p")
    case True
    then have "pow_up a e p = p" by (subst pow_up.simps) (simp del: pow_up.simps)
    with 1(2,3) show ?thesis by simp
  next
    case False
    then have eq: "pow_up a e p = pow_up a (e + 1) (2 * p)"
      by (subst pow_up.simps) (simp del: pow_up.simps)
    from False 1(2) have "0 < 2 * p" "2 * p \<le> a" by simp_all
    with 1(1) [OF False] eq show ?thesis by simp
  qed
qed

lemma pow_down_bounds: "0 < p \<Longrightarrow> 0 < pow_down a e p \<and> pow_down a e p \<le> p"
proof (induction a e p rule: pow_down.induct)
  case (1 a e p)
  show ?case
  proof (cases "e \<le> - 1022 \<or> p \<le> a")
    case True
    then have "pow_down a e p = p" by (subst pow_down.simps) (simp del: pow_down.simps)
    with 1(2) show ?thesis by simp
  next
    case False
    then have eq: "pow_down a e p = pow_down a (e - 1) (p / 2)"
      by (subst pow_down.simps) (simp del: pow_down.simps)
    from 1(2) have "0 < p / 2" by simp
    with 1(1) [OF False] eq 1(2) show ?thesis by simp
  qed
qed

lemma binade_bounds: "0 < binade a \<and> binade a \<le> max a (1 / 2)"
proof (cases "1 \<le> a")
  case True
  with pow_up_bounds [of 1 a 0] show ?thesis by (simp add: binade_def del: pow_up.simps)
next
  case False
  with pow_down_bounds [of "1 / 2" a "- 1"] show ?thesis
    by (simp add: binade_def max_def del: pow_down.simps)
qed

lemma round_double_error: "\<bar>round_double x - x\<bar> \<le> max \<bar>x\<bar> (1 / 2) / 2 ^ 53"
proof (cases "x = 0")
  case True
  then show ?thesis by (simp add: round_double_def)
next
  case False
  define u where "u = binade \<bar>x\<bar> / 2 ^ 52"
  from binade_bounds [of "\<bar>x\<bar>"] have u: "0 < u" "u \<le> max \<bar>x\<bar> (1 / 2) / 2 ^ 52"
    by (simp_all add: u_def divide_right_mono)
  have rd: "round_double x = u * of_int (round_half_even (x / u))"
    using False by (simp add: round_double_def u_def Let_def)
  have "round_double x - x = u * (of_int (round_half_even (x / u)) - x / u)"
    using u(1) by (simp add: rd algebra_simps)
  then have "\<bar>round_double x - x\<bar> = u * \<bar>of_int (round_half_even (x / u)) - x / u\<bar>"
    using u(1) by (simp add: abs_mult)
  also have "\<dots> \<le> u * (1 / 2)"
    using u(1) round_half_even_error [of "x / u"] by (intro mult_left_mono) simp_all
  also have "\<dots> \<le> max \<bar>x\<bar> (1 / 2) / 2 ^ 52 * (1 / 2)"
    using u(2) by (intro mult_right_mono) simp_all
  finally show ?thesis by simp
qed

subsection \<open>Score fusion\<close>

text \<open>
  The tier follows the computed double, not the exact difference: the literals 60.1 and 70.1
  differ by \<open>10 - 2 ^ -47\<close> as doubles, tier \<^verbatim>\<open>high\<close>; the doubles of 0.1 and 10.1 differ
  by less than 10, but their difference rounds to 10, tier \<^verbatim>\<open>medium\<close>.
\<close>

lemma score_fusion_rounding_examples:
  "map_sum id score_difference
     (calculate_enhanced_environmental_score (PNum 60.1) (PNum 70.1)) = Inr (10 - 1 / 2 ^ 47)
   \<and> map_sum id score_agreement
     (calculate_enhanced_environmental_score (PNum 60.1) (PNum 70.1)) = Inr ''high''
   \<and> round_double 10.1 - round_double 0.1 < 10
   \<and> map_sum id score_difference
     (calculate_enhanced_environmental_score (PNum 0.1) (PNum 10.1)) = Inr 10
   \<and> map_sum id score_agreement
     (calculate_enhanced_environmental_score (PNum 0.1) (PNum 10.1)) = Inr ''medium''"
  by (simp add: calculate_enhanced_environmental_score_def round_double_def binade_def
        round_half_even_def Let_def)

text \<open>
  C1. With two numeric scores the fused score is \<open>0.6 * vision + 0.4 * traditional\<close>, the delta
  is the absolute difference of the two scores as Python computes it (for doubles between 0
  and 100 it is the rounded difference, within \<open>100 / 2 ^ 53\<close> of the exact one), and the
  tier is \<^verbatim>\<open>high\<close> for a delta below 10, \<^verbatim>\<open>medium\<close> below 20 and \<^verbatim>\<open>low_agreement\<close>
  otherwise. Scores 70 and 75 give delta 5, tier \<^verbatim>\<open>high\<close> and fused score 73. A smaller
  delta never gives a weaker tier.
\<close>

theorem score_fusion_both_present:
  "(\<forall>t v. \<exists>r. calculate_enhanced_environmental_score (PNum t) (PNum v) = Inr r
        \<and> enhanced_score r = 0.6 * v + 0.4 * t
        \<and> score_difference r = \<bar>round_double (round_double t - round_double v)\<bar>
        \<and> score_agreement r =
            (if score_difference r < 10 then ''high''
             else if score_difference r < 20 then ''medium'' else ''low_agreement''))
   \<and> (\<forall>t v r. is_double t \<and> is_double v \<and> 0 \<le> t \<and> t \<le> 100 \<and> 0 \<le> v \<and> v \<le> 100
        \<and> calculate_enhanced_environmental_score (PNum t) (PNum v) = Inr r
        \<longrightarrow> score_difference r = \<bar>round_double (t - v)\<bar>
          \<and> \<bar>score_difference r - \<bar>t - v\<bar>\<bar> \<le> 100 / 2 ^ 53)
   \<and> (\<exists>r. calculate_enhanced_environmental_score (PNum 70) (PNum 75) = Inr r
        \<and> score_difference r = 5 \<and> score_agreement r = ''high'' \<and> enhanced_score r = 73)
   \<and> (\<forall>t1 v1 t2 v2 r1 r2.
         calculate_enhanced_environmental_score (PNum t1) (PNum v1) = Inr r1
       \<and> calculate_enhanced_environmental_score (PNum t2) (PNum v2) = Inr r2
       \<and> score_difference r1 \<le> score_difference r2
       \<longrightarrow> agreement_rank (score_agreement r2) \<le> agreement_rank (score_agreement r1))"
proof (intro conjI allI impI)
  fix t v
  show "\<exists>r. calculate_enhanced_environmental_score (PNum t) (PNum v) = Inr r
        \<and> enhanced_score r = 0.6 * v + 0.4 * t
        \<and> score_difference r = \<bar>round_double (round_double t - round_double v)\<bar>
        \<and> score_agreement r =
            (if score_difference r < 10 then ''high''
             else if score_difference r < 20 then ''medium'' else ''low_agreement'')"
    by (simp add: calculate_enhanced_environmental_score_def Let_def)
next
  fix t v r
  assume h: "is_double t \<and> is_double v \<and> 0 \<le> t \<and> t \<le> 100 \<and> 0 \<le> v \<and> v \<le> 100
        \<and> calculate_enhanced_environmental_score (PNum t) (PNum v) = Inr r"
  then have d: "score_difference r = \<bar>round_double (t - v)\<bar>"
    by (auto simp: calculate_enhanced_environmental_score_def Let_def is_double_def)
  from h have "max \<bar>t - v\<bar> (1 / 2) \<le> 100" by auto
  then have "max \<bar>t - v\<bar> (1 / 2) / 2 ^ 53 \<le> 100 / 2 ^ 53"
    by (intro divide_right_mono) simp_all
  with round_double_error [of "t - v"] have "\<bar>round_double (t - v) - (t - v)\<bar> \<le> 100 / 2 ^ 53"
    by linarith
  then have "\<bar>\<bar>round_double (t - v)\<bar> - \<bar>t - v\<bar>\<bar> \<le> 100 / 2 ^ 53"
    by linarith
  with d show "\<bar>score_difference r - \<bar>t - v\<bar>\<bar> \<le> 100 / 2 ^ 53"
    by simp
  from d show "score_difference r = \<bar>round_double (t - v)\<bar>" .
next
  show "\<exists>r. calculate_enhanced_environmental_score (PNum 70) (PNum 75) = Inr r
        \<and> score_difference r = 5 \<and> score_agreement r = ''high'' \<and> enhanced_score r = 73"
    by (simp add: calculate_enhanced_environmental_score_def round_double_def binade_def
          round_half_even_def Let_def)
next
  fix t1 v1 t2 v2 r1 r2
  assume h: "calculate_enhanced_environmental_score (PNum t1) (PNum v1) = Inr r1
       \<and> calculate_enhanced_environmental_score (PNum t2) (PNum v2) = Inr r2
       \<and> score_difference r1 \<le> score_difference r2"
  define d1 where "d1 = score_difference r1"
  define d2 where "d2 = score_difference r2"
  have a1: "score_agreement r1 =
      (if d1 < 10 then ''high'' else if d1 < 20 then ''medium'' else ''low_agreement'')"
    using h by (auto simp: calculate_enhanced_environmental_score_def Let_def d1_def)
  have a2: "score_agreement r2 =
      (if d2 < 10 then ''high'' else if d2 < 20 then ''medium'' else ''low_agreement'')"
    using h by (auto simp: calculate_enhanced_environmental_score_def Let_def d2_def)
  from h have "d1 \<le> d2" by (simp add: d1_def d2_def)
  then show "agreement_rank (score_agreement r2) \<le> agreement_rank (score_agreement r1)"
    by (simp add: a1 a2 agreement_rank_def)
qed

theorem score_fusion_both_present_witness:
  "is_double 70 \<and> is_double 75 \<and> is_double 40 \<and> is_double 90
   \<and> (\<exists>r1 r2. calculate_enhanced_environmental_score (PNum 70) (PNum 75) = Inr r1
         \<and> calculate_enhanced_environmental_score (PNum 40) (PNum 90) = Inr r2
         \<and> score_difference r1 = 5 \<and> score_difference r2 = 50
         \<and> score_difference r1 \<le> score_difference r2
         \<and> enhanced_score r2 = 70
         \<and> score_agreement r2 = ''low_agreement''
         \<and> agreement_rank (score_agreement r2) \<le> agreement_rank (score_agreement r1))"
  using score_fusion_both_present [THEN conjunct1, rule_format, of 40 90]
    score_fusion_both_present [THEN conjunct2, THEN conjunct1, rule_format, of 70 75]
  by (simp add: calculate_enhanced_environmental_score_def is_double_def round_double_def
        binade_def round_half_even_def agreement_rank_def Let_def)

text \<open>
  C7. With a numeric traditional health and the vegetation analysis that the vision side
  builds from its model outputs, the fused health is
  \<open>0.7 * visionHealth * 100 + 0.3 * traditionalHealth\<close> and the fused NDVI is the vision
  NDVI, unchanged.
\<close>

theorem vegetation_fusion_both_present:
  "map_of traditional_veg ''vegetation_health'' = Some (PNum th) \<Longrightarrow>
   \<exists>r. fuse_vegetation_analysis (Some traditional_veg) (combine_vegetation_analysis vc) = Inr r
     \<and> fused_health_score r = 0.7 * health_score vc * 100 + 0.3 * th
     \<and> fused_ndvi r = PNum (predicted_ndvi vc)"
  by (simp add: fuse_vegetation_analysis_def combine_vegetation_analysis_def dict_get_def Let_def)

theorem vegetation_fusion_both_present_witness:
  "\<exists>r. fuse_vegetation_analysis (Some [(''vegetation_health'', PNum 65)])
         (combine_vegetation_analysis
            \<lparr> health_score = 0.8, predicted_ndvi = 0.6, biomass_estimate = 12 \<rparr>) = Inr r
     \<and> fused_health_score r = 75.5 \<and> fused_ndvi r = PNum 0.6"
  using vegetation_fusion_both_present
    [of "[(''vegetation_health'', PNum 65)]" 65
        "\<lparr> health_score = 0.8, predicted_ndvi = 0.6, biomass_estimate = 12 \<rparr>"]
  by simp

text \<open>
  C8, as stated, fails: the two sides do not share the thresholds 80/60/40/20. A
  traditional health of 85 is labelled \<^verbatim>\<open>good\<close>, not \<^verbatim>\<open>excellent\<close>, so with a vision
  health of 0.85 (\<^verbatim>\<open>excellent\<close>) the consensus confidence is only \<^verbatim>\<open>medium\<close>; a vision
  health of exactly 0.8 is \<^verbatim>\<open>good\<close>, and the lowest vision label is \<^verbatim>\<open>critical\<close>.
\<close>

theorem vegetation_status_thresholds_counterexample:
  "map_sum id (ti_status \<circ> traditional_ai_input)
     (fuse_vegetation_analysis (Some [(''vegetation_health'', PNum 85)])
        (combine_vegetation_analysis
           \<lparr> health_score = 0.85, predicted_ndvi = 0.7, biomass_estimate = 10 \<rparr>)) = Inr ''good''
   \<and> map_sum id (ci_status \<circ> cnn_ai_input)
     (fuse_vegetation_analysis (Some [(''vegetation_health'', PNum 85)])
        (combine_vegetation_analysis
           \<lparr> health_score = 0.85, predicted_ndvi = 0.7, biomass_estimate = 10 \<rparr>))
       = Inr (PStr ''excellent'')
   \<and> map_sum id fusion_confidence
     (fuse_vegetation_analysis (Some [(''vegetation_health'', PNum 85)])
        (combine_vegetation_analysis
           \<lparr> health_score = 0.85, predicted_ndvi = 0.7, biomass_estimate = 10 \<rparr>)) = Inr ''medium''
   \<and> classify_vegetation_from_cnn 0.8 = ''good''
   \<and> classify_vegetation_from_cnn 0.1 = ''critical''"
  by (simp add: fuse_vegetation_analysis_def combine_vegetation_analysis_def dict_get_def
        classify_vegetation_from_cnn_def Let_def)

text \<open>
  C8, amended. The fusion labels the traditional health \<^verbatim>\<open>good\<close> above 60, \<^verbatim>\<open>moderate\<close>
  above 30 and \<^verbatim>\<open>poor\<close> otherwise; the vision side labels its health score (between 0 and
  1) \<^verbatim>\<open>excellent\<close> above 0.8, \<^verbatim>\<open>good\<close> above 0.6, \<^verbatim>\<open>moderate\<close> above 0.4, \<^verbatim>\<open>poor\<close>
  above 0.2 and \<^verbatim>\<open>critical\<close> otherwise. The consensus status is the vision label, with
  confidence \<^verbatim>\<open>high\<close> when the traditional label equals it and \<^verbatim>\<open>medium\<close> otherwise.
  Traditional health 65 with vision status \<^verbatim>\<open>good\<close> gives \<^verbatim>\<open>good\<close> with confidence
  \<^verbatim>\<open>high\<close>.
\<close>

theorem vegetation_status_classification:
  "(\<forall>tveg cveg th ch label.
      map_of tveg ''vegetation_health'' = Some (PNum th)
    \<and> map_of cveg ''cnn_health_score'' = Some (PNum ch)
    \<and> map_of cveg ''vegetation_status'' = Some (PStr label)
    \<longrightarrow> (\<exists>r. fuse_vegetation_analysis (Some tveg) cveg = Inr r
          \<and> ti_status (traditional_ai_input r) =
              (if th > 60 then ''good'' else if th > 30 then ''moderate'' else ''poor'')
          \<and> consensus_status r = PStr label
          \<and> fusion_confidence r =
              (if ti_status (traditional_ai_input r) = label then ''high'' else ''medium'')))
   \<and> (\<forall>h. classify_vegetation_from_cnn h =
          (if h > 0.8 then ''excellent'' else if h > 0.6 then ''good''
           else if h > 0.4 then ''moderate'' else if h > 0.2 then ''poor'' else ''critical''))
   \<and> (\<exists>r. fuse_vegetation_analysis (Some [(''vegetation_health'', PNum 65)])
             [(''cnn_health_score'', PNum 70), (''vegetation_status'', PStr ''good'')] = Inr r
          \<and> ti_status (traditional_ai_input r) = ''good''
          \<and> consensus_status r = PStr ''good'' \<and> fusion_confidence r = ''high'')"
  by (auto simp: fuse_vegetation_analysis_def dict_get_def classify_vegetation_from_cnn_def Let_def)

theorem vegetation_status_classification_witness:
  "\<exists>r. fuse_vegetation_analysis (Some [(''vegetation_health'', PNum 45)])
          [(''cnn_health_score'', PNum 90), (''vegetation_status'', PStr ''excellent'')] = Inr r
     \<and> ti_status (traditional_ai_input r) = ''moderate''
     \<and> consensus_status r = PStr ''excellent'' \<and> fusion_confidence r = ''medium''"
  using vegetation_status_classification
    [THEN conjunct1, rule_format,
     of "[(''vegetation_health'', PNum 45)]" 45
        "[(''cnn_health_score'', PNum 90), (''vegetation_status'', PStr ''excellent'')]"
        90 "''excellent''"]
  by auto




subsection \<open>Risk fusion\<close>

text \<open>The shape of every result of the risk fusion, and inputs on which it returns one.\<close>

lemma level_cases:
  "(if (n::nat) > 2 then a else if n > 0 then b else c) =
   (if n > 2 then a else if n = 1 \<or> n = 2 then b else c)"
  by auto

lemma combine_risk_assessments_form:
  assumes "combine_risk_assessments td risks = Inr r"
  shows "\<exists>tr det. detected_risks_get risks = Inr det
       \<and> r = \<lparr> all_detected_risks = tr @ det, traditional_ai_risks = tr, cnn_ai_risks = det,
               combined_risk_level =
                 (if length (tr @ det) > 2 then ''high''
                  else if length (tr @ det) > 0 then ''moderate'' else ''low''),
               total_risks_detected = length (tr @ det), consensus_risks = [] \<rparr>"
  using assms
  unfolding combine_risk_assessments_def Let_def
  by (simp only: sum.simps split: sum.splits) blast

lemma combine_risk_assessments_total:
  assumes "air_quality td = Some aq" "dict_get aq ''aqi'' (PNum 50) = PNum a"
    and "weather td = Some w" "dict_get w ''temperature'' (PNum 20) = PNum t"
    and "vegetation td = Some v" "dict_get v ''vegetation_health'' (PNum 50) = PNum h"
  shows "\<exists>r. combine_risk_assessments td (RiskDict vision) = Inr r"
proof (cases vision)
  case None
  with assms show ?thesis
    by (simp add: combine_risk_assessments_def record_get_def Let_def)
next
  case (Some rs)
  with assms show ?thesis
    by (simp add: combine_risk_assessments_def record_get_def Let_def)
qed

text \<open>
  C6. The fused list of all risks is the traditional risks followed by the vision risks,
  nothing dropped and nothing merged, so its length is the sum of the two lengths; and the
  overall level is \<^verbatim>\<open>high\<close> for more than two risks, \<^verbatim>\<open>moderate\<close> for one or two and
  \<^verbatim>\<open>low\<close> for none. With numeric readings and a vision risk dictionary the fusion
  returns such a result.
\<close>

theorem risk_fusion_complete:
  "(\<forall>td risks r.
       combine_risk_assessments td risks = Inr r
     \<longrightarrow> detected_risks_get risks = Inr (cnn_ai_risks r)
       \<and> all_detected_risks r = traditional_ai_risks r @ cnn_ai_risks r
       \<and> length (all_detected_risks r) = length (traditional_ai_risks r) + length (cnn_ai_risks r)
       \<and> combined_risk_level r =
           (if length (all_detected_risks r) > 2 then ''high''
            else if length (all_detected_risks r) = 1 \<or> length (all_detected_risks r) = 2
                 then ''moderate'' else ''low''))
   \<and> (\<forall>td aq w v a t h vision.
       air_quality td = Some aq \<and> dict_get aq ''aqi'' (PNum 50) = PNum a
     \<and> weather td = Some w \<and> dict_get w ''temperature'' (PNum 20) = PNum t
     \<and> vegetation td = Some v \<and> dict_get v ''vegetation_health'' (PNum 50) = PNum h
     \<longrightarrow> (\<exists>r. combine_risk_assessments td (RiskDict (Some vision)) = Inr r
            \<and> cnn_ai_risks r = vision))"
proof (intro conjI allI impI)
  fix td risks r
  assume a: "combine_risk_assessments td risks = Inr r"
  from combine_risk_assessments_form [OF a] obtain tr det where
    d: "detected_risks_get risks = Inr det" and
    r: "r = \<lparr> all_detected_risks = tr @ det, traditional_ai_risks = tr, cnn_ai_risks = det,
               combined_risk_level =
                 (if length (tr @ det) > 2 then ''high''
                  else if length (tr @ det) > 0 then ''moderate'' else ''low''),
               total_risks_detected = length (tr @ det), consensus_risks = [] \<rparr>"
    by blast
  show "detected_risks_get risks = Inr (cnn_ai_risks r)" using d r by simp
  show "all_detected_risks r = traditional_ai_risks r @ cnn_ai_risks r" using r by simp
  show "length (all_detected_risks r) = length (traditional_ai_risks r) + length (cnn_ai_risks r)"
    using r by simp
  show "combined_risk_level r =
           (if length (all_detected_risks r) > 2 then ''high''
            else if length (all_detected_risks r) = 1 \<or> length (all_detected_risks r) = 2
                 then ''moderate'' else ''low'')"
    by (subst level_cases [symmetric]) (simp add: r)
next
  fix td :: traditional_data and aq w v a t h vision
  assume h: "air_quality td = Some aq \<and> dict_get aq ''aqi'' (PNum 50) = PNum a
     \<and> weather td = Some w \<and> dict_get w ''temperature'' (PNum 20) = PNum t
     \<and> vegetation td = Some v \<and> dict_get v ''vegetation_health'' (PNum 50) = PNum h"
  then obtain r where r: "combine_risk_assessments td (RiskDict (Some vision)) = Inr r"
    using combine_risk_assessments_total [of td aq a w t v h "Some vision"] by blast
  from combine_risk_assessments_form [OF r] have "cnn_ai_risks r = vision" by auto
  with r show "\<exists>r. combine_risk_assessments td (RiskDict (Some vision)) = Inr r
            \<and> cnn_ai_risks r = vision" by blast
qed

theorem risk_fusion_complete_witness:
  "\<exists>r. combine_risk_assessments
          \<lparr> air_quality = Some [(''aqi'', PNum 160)],
            weather = Some [(''temperature'', PNum 20)],
            vegetation = Some [(''vegetation_health'', PNum 10)],
            water_quality = None, uv_data = None, environmental_score = PNum 21,
            latitude = 10, longitude = 20 \<rparr>
          (RiskDict (Some [[(''type'', PStr ''water_scarcity''), (''severity'', PStr ''high'')]]))
        = Inr r
     \<and> cnn_ai_risks r = [[(''type'', PStr ''water_scarcity''), (''severity'', PStr ''high'')]]
     \<and> length (traditional_ai_risks r) = 2
     \<and> length (all_detected_risks r) = 3
     \<and> combined_risk_level r = ''high''"
  using risk_fusion_complete
    [THEN conjunct2, rule_format,
     of "\<lparr> air_quality = Some [(''aqi'', PNum 160)],
            weather = Some [(''temperature'', PNum 20)],
            vegetation = Some [(''vegetation_health'', PNum 10)],
            water_quality = None, uv_data = None, environmental_score = PNum 21,
            latitude = 10, longitude = 20 \<rparr>"
        "[(''aqi'', PNum 160)]" 160 "[(''temperature'', PNum 20)]" 20
        "[(''vegetation_health'', PNum 10)]" 10
        "[[(''type'', PStr ''water_scarcity''), (''severity'', PStr ''high'')]]"]
  by (simp add: combine_risk_assessments_def record_get_def dict_get_def Let_def)

subsection \<open>The traditional score\<close>



text \<open>
  The source reads each field with \<^verbatim>\<open>.get(key, default)\<close>. The default would be used for
  a record that is present but lacks its key, as below for an air-quality record without
  \<^verbatim>\<open>aqi\<close>; no provider returns such a record.
\<close>

lemma traditional_score_missing_key_default:
  "map_sum id environmental_score
     (get_traditional_environmental_data
        (Some [(''pm25'', PNum 12)]) (Some [(''temperature'', PNum 22)])
        (Some [(''vegetation_health'', PNum 50)]) None None 10 20) = Inr (PNum 65)"
  by (simp add: get_traditional_environmental_data_def get_if_present_def dict_get_def Let_def)

subsection \<open>Consensus risks\<close>

text \<open>Every result of the risk fusion has an empty list of consensus risks.\<close>

lemma consensus_risks_always_empty:
  "combine_risk_assessments td risks = Inr r \<Longrightarrow> consensus_risks r = []"
  by (drule combine_risk_assessments_form) auto

text \<open>
  The traditional side reports three risk types and the vision side four others.
\<close>

lemma risk_type_traditional_risk: "risk_type (traditional_risk ty sev) = Some (PStr ty)"
  by (simp add: risk_type_def traditional_risk_def)

lemma risk_type_cnn_risk: "risk_type (cnn_risk ty sev conf descr) = Some (PStr ty)"
  by (simp add: risk_type_def cnn_risk_def)

lemma traditional_parts_types:
  "set (map risk_type
          ((if c1 then [traditional_risk t1 s1] else [])
           @ (if c2 then [traditional_risk t2 s2] else [])
           @ (if c3 then [traditional_risk t3 s3] else [])))
     \<subseteq> {Some (PStr t1), Some (PStr t2), Some (PStr t3)}"
  by (auto simp: risk_type_traditional_risk split: if_splits)

lemma cnn_parts_types:
  "set (map risk_type
          ((if c1 then [cnn_risk t1 s1 f1 d1] else [])
           @ (if c2 then [cnn_risk t2 s2 f2 d2] else [])
           @ (if c3 then [cnn_risk t3 s3 f3 d3] else [])
           @ (if c4 then [cnn_risk t4 s4 f4 d4] else [])))
     \<subseteq> {Some (PStr t1), Some (PStr t2), Some (PStr t3), Some (PStr t4)}"
  by (auto simp: risk_type_cnn_risk split: if_splits)

lemma traditional_risk_types:
  assumes "combine_risk_assessments td risks = Inr r"
  shows "set (map risk_type (traditional_ai_risks r))
           \<subseteq> {Some (PStr ''air_pollution''), Some (PStr ''temperature_stress''),
               Some (PStr ''vegetation_decline'')}"
  using assms unfolding combine_risk_assessments_def Let_def
  apply (simp only: sum.simps split: sum.splits)
  apply hypsubst
  apply (simp only: combined_risks.select_convs)
  apply (rule traditional_parts_types)
  done

lemma cnn_risk_types:
  assumes "assess_cnn_environmental_risks format_1f results = RiskDict (Some rs)"
  shows "set (map risk_type rs)
           \<subseteq> {Some (PStr ''vegetation_degradation''), Some (PStr ''deforestation_detected''),
               Some (PStr ''water_scarcity''), Some (PStr ''urban_environmental_pressure'')}"
  using assms unfolding assess_cnn_environmental_risks_def Let_def
  apply (simp only: cnn_risks.inject option.inject)
  apply hypsubst
  apply (rule cnn_parts_types)
  done

text \<open>
  C4, as stated, fails: the field is empty by construction. It is empty when both sides
  report a vegetation risk (AQI 160 and vegetation health 10 on the traditional side, the
  vision risk \<^verbatim>\<open>vegetation_degradation\<close>), and no input at all gives a non-empty list.
\<close>

theorem consensus_risks_empty_counterexample:
  "map_sum id consensus_risks
     (combine_risk_assessments
        \<lparr> air_quality = Some [(''aqi'', PNum 160)],
          weather = Some [(''temperature'', PNum 20)],
          vegetation = Some [(''vegetation_health'', PNum 10)],
          water_quality = None, uv_data = None, environmental_score = PNum 21,
          latitude = 10, longitude = 20 \<rparr>
        (RiskDict (Some [cnn_risk ''vegetation_degradation'' ''high'' 0.9
                           ''CNN detected significant vegetation health decline''])))
     = Inr []
   \<and> \<not> (\<exists>td risks r. combine_risk_assessments td risks = Inr r \<and> consensus_risks r \<noteq> [])"
proof (intro conjI)
  show "map_sum id consensus_risks
     (combine_risk_assessments
        \<lparr> air_quality = Some [(''aqi'', PNum 160)],
          weather = Some [(''temperature'', PNum 20)],
          vegetation = Some [(''vegetation_health'', PNum 10)],
          water_quality = None, uv_data = None, environmental_score = PNum 21,
          latitude = 10, longitude = 20 \<rparr>
        (RiskDict (Some [cnn_risk ''vegetation_degradation'' ''high'' 0.9
                           ''CNN detected significant vegetation health decline''])))
     = Inr []"
    by (simp add: combine_risk_assessments_def record_get_def dict_get_def Let_def)
  show "\<not> (\<exists>td risks r. combine_risk_assessments td risks = Inr r \<and> consensus_risks r \<noteq> [])"
    using consensus_risks_always_empty by blast
qed

text \<open>
  C4, amended. The consensus risks are the empty list on every input: the field is a
  constant, not computed. For the risk lists that the two sources produce, the empty list
  is the subset of the combined risks whose type appears under both detection methods,
  because the two methods never report a common type.
\<close>

theorem consensus_risks_constant_empty:
  "(\<forall>td risks r. combine_risk_assessments td risks = Inr r \<longrightarrow> consensus_risks r = [])
   \<and> (\<forall>format_1f results td r.
         combine_risk_assessments td (assess_cnn_environmental_risks format_1f results) = Inr r
       \<longrightarrow> set (map risk_type (traditional_ai_risks r))
             \<inter> set (map risk_type (cnn_ai_risks r)) = {}
         \<and> consensus_risks r =
             filter (\<lambda>risk. risk_type risk \<in> set (map risk_type (traditional_ai_risks r))
                                            \<inter> set (map risk_type (cnn_ai_risks r)))
               (all_detected_risks r))"
proof (intro conjI allI impI)
  fix td risks r
  assume "combine_risk_assessments td risks = Inr r"
  then show "consensus_risks r = []" by (rule consensus_risks_always_empty)
next
  fix format_1f results td r
  assume a: "combine_risk_assessments td (assess_cnn_environmental_risks format_1f results) = Inr r"
  from combine_risk_assessments_form [OF a]
  have d: "detected_risks_get (assess_cnn_environmental_risks format_1f results)
             = Inr (cnn_ai_risks r)" by auto
  then have "assess_cnn_environmental_risks format_1f results = RiskDict (Some (cnn_ai_risks r))"
    by (simp add: assess_cnn_environmental_risks_def Let_def)
  have apart: "{Some (PStr ''air_pollution''), Some (PStr ''temperature_stress''),
                Some (PStr ''vegetation_decline'')}
             \<inter> {Some (PStr ''vegetation_degradation''), Some (PStr ''deforestation_detected''),
                Some (PStr ''water_scarcity''), Some (PStr ''urban_environmental_pressure'')} = {}"
    by simp
  from cnn_risk_types [OF \<open>assess_cnn_environmental_risks format_1f results
        = RiskDict (Some (cnn_ai_risks r))\<close>] traditional_risk_types [OF a] apart
  show disj: "set (map risk_type (traditional_ai_risks r))
             \<inter> set (map risk_type (cnn_ai_risks r)) = {}"
    by blast
  show "consensus_risks r =
             filter (\<lambda>risk. risk_type risk \<in> set (map risk_type (traditional_ai_risks r))
                                            \<inter> set (map risk_type (cnn_ai_risks r)))
               (all_detected_risks r)"
    by (simp only: disj consensus_risks_always_empty [OF a]) simp
qed

theorem consensus_risks_constant_empty_witness:
  "\<exists>r. combine_risk_assessments
          \<lparr> air_quality = Some [(''aqi'', PNum 160)],
            weather = Some [(''temperature'', PNum 20)],
            vegetation = Some [(''vegetation_health'', PNum 10)],
            water_quality = None, uv_data = None, environmental_score = PNum 21,
            latitude = 10, longitude = 20 \<rparr>
          (assess_cnn_environmental_risks (\<lambda>x. ''10.0'')
             \<lparr> vegetation_out =
                 \<lparr> health_score = 0.1, predicted_ndvi = 0.2, biomass_estimate = 3 \<rparr>,
               water_presence_probability = 0.5, urban_probability = 0.2,
               deforestation_risk = 0.1 \<rparr>) = Inr r
     \<and> map risk_type (traditional_ai_risks r)
         = [Some (PStr ''air_pollution''), Some (PStr ''vegetation_decline'')]
     \<and> map risk_type (cnn_ai_risks r) = [Some (PStr ''vegetation_degradation'')]
     \<and> set (map risk_type (traditional_ai_risks r)) \<inter> set (map risk_type (cnn_ai_risks r)) = {}
     \<and> consensus_risks r = []"
  using consensus_risks_constant_empty
    [THEN conjunct2, rule_format,
     of "\<lparr> air_quality = Some [(''aqi'', PNum 160)],
            weather = Some [(''temperature'', PNum 20)],
            vegetation = Some [(''vegetation_health'', PNum 10)],
            water_quality = None, uv_data = None, environmental_score = PNum 21,
            latitude = 10, longitude = 20 \<rparr>"
        "\<lambda>x. ''10.0''"
        "\<lparr> vegetation_out =
                 \<lparr> health_score = 0.1, predicted_ndvi = 0.2, biomass_estimate = 3 \<rparr>,
               water_presence_probability = 0.5, urban_probability = 0.2,
               deforestation_risk = 0.1 \<rparr>"]
  by (simp add: combine_risk_assessments_def record_get_def dict_get_def Let_def
        assess_cnn_environmental_risks_def risk_type_def traditional_risk_def cnn_risk_def)

subsection \<open>Failure of the fusion\<close>

text \<open>Each part of the fusion returns a result on numeric inputs.\<close>

lemma fuse_vegetation_analysis_numeric:
  assumes "dict_get tveg ''vegetation_health'' (PNum 50) = PNum th"
    and "dict_get cveg ''cnn_health_score'' (PNum 50) = PNum ch"
  shows "\<exists>r. fuse_vegetation_analysis (Some tveg) cveg = Inr r
           \<and> fused_health_score r = 0.7 * ch + 0.3 * th"
  using assms by (simp add: fuse_vegetation_analysis_def Let_def split: prod.splits)

lemma calculate_fusion_confidence_numeric:
  assumes "environmental_score td = PNum ts" and "cnn_environmental_score cd = PNum cs"
  shows "\<exists>r. calculate_fusion_confidence td cd = Inr r"
  using assms by (simp add: calculate_fusion_confidence_def Let_def)

lemma calculate_enhanced_environmental_score_numeric:
  "\<exists>r. calculate_enhanced_environmental_score (PNum ts) (PNum cs) = Inr r
       \<and> enhanced_score r = 0.6 * cs + 0.4 * ts"
  by (simp add: calculate_enhanced_environmental_score_def Let_def)

text \<open>
  C2, as stated, fails: with exactly one source unavailable the fusion raises. Here the
  traditional reading is complete (score 72.5) and the vision side has no image; the fusion
  ends in \<^verbatim>\<open>TypeError\<close> and no fused assessment is emitted.
\<close>

theorem fusion_failure_semantics_counterexample:
  "get_traditional_environmental_data (Some [(''aqi'', PNum 40)])
       (Some [(''temperature'', PNum 22)]) (Some [(''vegetation_health'', PNum 65)])
       None None 10 20
     = Inr \<lparr> air_quality = Some [(''aqi'', PNum 40)],
             weather = Some [(''temperature'', PNum 22)],
             vegetation = Some [(''vegetation_health'', PNum 65)],
             water_quality = None, uv_data = None, environmental_score = PNum 72.5,
             latitude = 10, longitude = 20 \<rparr>
   \<and> fuse_traditional_and_cnn_analysis
       \<lparr> air_quality = Some [(''aqi'', PNum 40)],
         weather = Some [(''temperature'', PNum 22)],
         vegetation = Some [(''vegetation_health'', PNum 65)],
         water_quality = None, uv_data = None, environmental_score = PNum 72.5,
         latitude = 10, longitude = 20 \<rparr>
       (simulate_cnn_analysis 10 20) 10 20 = Inl TypeError"
  by (simp add: get_traditional_environmental_data_def get_if_present_def dict_get_def Let_def
        fuse_traditional_and_cnn_analysis_def fuse_vegetation_analysis_def
        simulate_cnn_analysis_def simulate_vegetation_analysis_def)

text \<open>
  C2, amended. When both sources are available (numeric readings and score on the
  traditional side; numeric health and score and a risk dictionary on the vision side) the
  fusion never raises and returns the two-source fused assessment. When both are
  unavailable (every provider returned \<^verbatim>\<open>None\<close> and the vision side has no image) the
  fusion raises, with \<^verbatim>\<open>AttributeError\<close>, and no fused assessment is emitted.
\<close>

theorem fusion_failure_semantics:
  "(\<forall>td cd tveg aq w th a t ts ch cs vis lat lon.
       vegetation td = Some tveg \<and> dict_get tveg ''vegetation_health'' (PNum 50) = PNum th
     \<and> air_quality td = Some aq \<and> dict_get aq ''aqi'' (PNum 50) = PNum a
     \<and> weather td = Some w \<and> dict_get w ''temperature'' (PNum 20) = PNum t
     \<and> environmental_score td = PNum ts
     \<and> dict_get (vegetation_analysis cd) ''cnn_health_score'' (PNum 50) = PNum ch
     \<and> cnn_environmental_score cd = PNum cs
     \<and> environmental_risks cd = RiskDict vis
     \<longrightarrow> (\<exists>r. fuse_traditional_and_cnn_analysis td cd lat lon = Inr r
            \<and> fused_health_score (fused_vegetation_analysis r) = 0.7 * ch + 0.3 * th
            \<and> enhanced_score (enhanced_environmental_score r) = 0.6 * cs + 0.4 * ts))
   \<and> (\<forall>water uv lat lon.
         \<exists>td. get_traditional_environmental_data None None None water uv lat lon = Inr td
            \<and> fuse_traditional_and_cnn_analysis td (simulate_cnn_analysis lat lon) lat lon
                = Inl AttributeError)"
proof (intro conjI allI impI)
  fix td :: traditional_data and cd :: cnn_data
    and tveg aq w th a t ts ch cs vis and lat lon :: real
  assume h: "vegetation td = Some tveg \<and> dict_get tveg ''vegetation_health'' (PNum 50) = PNum th
     \<and> air_quality td = Some aq \<and> dict_get aq ''aqi'' (PNum 50) = PNum a
     \<and> weather td = Some w \<and> dict_get w ''temperature'' (PNum 20) = PNum t
     \<and> environmental_score td = PNum ts
     \<and> dict_get (vegetation_analysis cd) ''cnn_health_score'' (PNum 50) = PNum ch
     \<and> cnn_environmental_score cd = PNum cs
     \<and> environmental_risks cd = RiskDict vis"
  from h obtain fv where fv: "fuse_vegetation_analysis (vegetation td) (vegetation_analysis cd) = Inr fv"
    "fused_health_score fv = 0.7 * ch + 0.3 * th"
    using fuse_vegetation_analysis_numeric [of tveg th "vegetation_analysis cd" ch] by auto
  from h obtain es where es: "calculate_enhanced_environmental_score (environmental_score td)
      (cnn_environmental_score cd) = Inr es" "enhanced_score es = 0.6 * cs + 0.4 * ts"
    using calculate_enhanced_environmental_score_numeric [of ts cs] by auto
  from h obtain rs where rs: "combine_risk_assessments td (environmental_risks cd) = Inr rs"
    using combine_risk_assessments_total [of td aq a w t tveg th vis] by auto
  from h obtain fc where fc: "calculate_fusion_confidence td cd = Inr fc"
    using calculate_fusion_confidence_numeric [of td ts cd cs] by auto
  show "\<exists>r. fuse_traditional_and_cnn_analysis td cd lat lon = Inr r
            \<and> fused_health_score (fused_vegetation_analysis r) = 0.7 * ch + 0.3 * th
            \<and> enhanced_score (enhanced_environmental_score r) = 0.6 * cs + 0.4 * ts"
    by (simp add: fuse_traditional_and_cnn_analysis_def fv es rs fc)
next
  fix water uv :: "pydict option" and lat lon :: real
  show "\<exists>td. get_traditional_environmental_data None None None water uv lat lon = Inr td
            \<and> fuse_traditional_and_cnn_analysis td (simulate_cnn_analysis lat lon) lat lon
                = Inl AttributeError"
    by (simp add: get_traditional_environmental_data_def get_if_present_def Let_def
          fuse_traditional_and_cnn_analysis_def fuse_vegetation_analysis_def)
qed

theorem fusion_failure_semantics_witness:
  "(\<exists>r. fuse_traditional_and_cnn_analysis
       \<lparr> air_quality = Some [(''aqi'', PNum 40)],
         weather = Some [(''temperature'', PNum 22)],
         vegetation = Some [(''vegetation_health'', PNum 65)],
         water_quality = None, uv_data = None, environmental_score = PNum 72.5,
         latitude = 10, longitude = 20 \<rparr>
       \<lparr> vegetation_analysis =
           combine_vegetation_analysis
             \<lparr> health_score = 0.8, predicted_ndvi = 0.6, biomass_estimate = 12 \<rparr>,
         environmental_risks = RiskDict (Some []),
         conservation_priorities = [],
         cnn_environmental_score = PNum 75,
         cnn_confidence = None \<rparr> 10 20 = Inr r
      \<and> fused_health_score (fused_vegetation_analysis r) = 75.5
      \<and> enhanced_score (enhanced_environmental_score r) = 74)
   \<and> (\<exists>td. get_traditional_environmental_data None None None None None 10 20 = Inr td
      \<and> fuse_traditional_and_cnn_analysis td (simulate_cnn_analysis 10 20) 10 20
           = Inl AttributeError)"
  using fusion_failure_semantics
    [THEN conjunct1, rule_format,
     of "\<lparr> air_quality = Some [(''aqi'', PNum 40)],
         weather = Some [(''temperature'', PNum 22)],
         vegetation = Some [(''vegetation_health'', PNum 65)],
         water_quality = None, uv_data = None, environmental_score = PNum 72.5,
         latitude = 10, longitude = 20 \<rparr>"
        "[(''vegetation_health'', PNum 65)]" 65 "[(''aqi'', PNum 40)]" 40
        "[(''temperature'', PNum 22)]" 22 "72.5"
        "\<lparr> vegetation_analysis =
           combine_vegetation_analysis
             \<lparr> health_score = 0.8, predicted_ndvi = 0.6, biomass_estimate = 12 \<rparr>,
         environmental_risks = RiskDict (Some []),
         conservation_priorities = [],
         cnn_environmental_score = PNum 75,
         cnn_confidence = None \<rparr>" 80 75 "Some []" 10 20]
    fusion_failure_semantics [THEN conjunct2, rule_format, of None None 10 20]
  by (simp add: dict_get_def combine_vegetation_analysis_def)


subsection \<open>Coordinates\<close>

text \<open>Python's remainder lies in \<open>[0, m)\<close>, so wrapping a longitude twice changes nothing.\<close>

lemma py_mod_range: "0 < m \<Longrightarrow> 0 \<le> py_mod x m \<and> py_mod x m < m"
proof -
  assume m: "0 < m"
  have a: "of_int \<lfloor>x / m\<rfloor> \<le> x / m" by (rule of_int_floor_le)
  have b: "x / m < of_int \<lfloor>x / m\<rfloor> + 1" by linarith
  have "of_int \<lfloor>x / m\<rfloor> * m \<le> x"
    using a [unfolded pos_le_divide_eq [OF m]] .
  moreover have "x < (of_int \<lfloor>x / m\<rfloor> + 1) * m"
    using b [unfolded pos_divide_less_eq [OF m]] .
  ultimately show ?thesis by (simp add: py_mod_def algebra_simps)
qed

lemma py_mod_idem: "0 < m \<Longrightarrow> py_mod (py_mod x m) m = py_mod x m"
proof -
  assume m: "0 < m"
  from py_mod_range [OF m, of x] m have "0 \<le> py_mod x m / m" "py_mod x m / m < 1"
    by simp_all
  then have "\<lfloor>py_mod x m / m\<rfloor> = 0" by (simp add: floor_eq_iff)
  then show ?thesis by (subst py_mod_def) simp
qed

text \<open>
  C9, as stated, fails: no range check is made. A request for latitude 95 and longitude 200
  is handed to the analysis as it is, without an error, and the tile lookup clamps and
  wraps it silently: it returns the tile of latitude 90 and longitude -160.
\<close>

theorem coordinates_not_validated_counterexample:
  "analyze_environment_coordinates
      (JObj [(''latitude'', JNum 95), (''longitude'', JNum 200)]) = Inr (95, 200)
   \<and> deg2tile_epsg4326 95 200 ''250m'' 3 = Some (0, 0)
   \<and> deg2tile_epsg4326 90 (- 160) ''250m'' 3 = Some (0, 0)"
  by (simp add: analyze_environment_coordinates_def get_coordinate_def
        deg2tile_epsg4326_def gibs_tile_matrix_metadata_def py_mod_def py_int_def Let_def)

text \<open>
  C9, amended. The endpoint hands the requested non-zero latitude and longitude to the
  analysis unchanged, whatever their range, and a fusion that returns a result reports them
  as its location; no validation error exists. The tile lookup clamps the latitude into
  \<open>[-90, 90]\<close> and wraps the longitude into \<open>[-180, 180)\<close>, so an out-of-range coordinate
  gets the tile of the clamped and wrapped one.
\<close>

theorem coordinates_passed_unchecked:
  "(\<forall>kvs la lo.
        map_of kvs ''latitude'' = Some (JNum la) \<and> la \<noteq> 0
      \<and> map_of kvs ''longitude'' = Some (JNum lo) \<and> lo \<noteq> 0
      \<longrightarrow> analyze_environment_coordinates (JObj kvs) = Inr (la, lo))
   \<and> (\<forall>td cd la lo r.
        fuse_traditional_and_cnn_analysis td cd la lo = Inr r \<longrightarrow> location r = (la, lo))
   \<and> (\<forall>la lo m z.
        deg2tile_epsg4326 la lo m z =
        deg2tile_epsg4326 (max (min la 90) (- 90)) (py_mod (lo + 180) 360 - 180) m z)"
proof (intro conjI allI impI)
  fix kvs la lo
  assume "map_of kvs ''latitude'' = Some (JNum la) \<and> la \<noteq> 0
      \<and> map_of kvs ''longitude'' = Some (JNum lo) \<and> lo \<noteq> 0"
  then show "analyze_environment_coordinates (JObj kvs) = Inr (la, lo)"
    by (simp add: analyze_environment_coordinates_def get_coordinate_def)
next
  fix td cd la lo r
  assume "fuse_traditional_and_cnn_analysis td cd la lo = Inr r"
  then show "location r = (la, lo)"
    by (auto simp: fuse_traditional_and_cnn_analysis_def split: sum.splits)
next
  fix la lo m z
  show "deg2tile_epsg4326 la lo m z =
        deg2tile_epsg4326 (max (min la 90) (- 90)) (py_mod (lo + 180) 360 - 180) m z"
    by (simp add: deg2tile_epsg4326_def py_mod_idem Let_def)
qed

theorem coordinates_passed_unchecked_witness:
  "analyze_environment_coordinates
      (JObj [(''latitude'', JNum (- 120)), (''longitude'', JNum 400)]) = Inr (- 120, 400)
   \<and> deg2tile_epsg4326 (- 120) 400 ''1km'' 2 = deg2tile_epsg4326 (- 90) 40 ''1km'' 2
   \<and> deg2tile_epsg4326 (- 120) 400 ''1km'' 2 = Some (3, 2)"
  using coordinates_passed_unchecked
    [THEN conjunct1, rule_format,
     of "[(''latitude'', JNum (- 120)), (''longitude'', JNum 400)]" "- 120" 400]
    coordinates_passed_unchecked
    [THEN conjunct2, THEN conjunct2, rule_format, of "- 120" 400 "''1km''" 2]
  by (simp add: deg2tile_epsg4326_def gibs_tile_matrix_metadata_def py_mod_def py_int_def Let_def)

text \<open>
  C10, as stated, fails when the short key is present: a body with \<^verbatim>\<open>latitude\<close> 0 and
  \<^verbatim>\<open>lat\<close> 0, or with only the short keys \<^verbatim>\<open>lat\<close> 0 and \<^verbatim>\<open>lon\<close> 0, is analysed at
  latitude 0, not at the default.
\<close>

theorem zero_coordinate_counterexample:
  "analyze_environment_coordinates
      (JObj [(''latitude'', JNum 0), (''lat'', JNum 0), (''longitude'', JNum 10)]) = Inr (0, 10)
   \<and> analyze_environment_coordinates (JObj [(''lat'', JNum 0), (''lon'', JNum 0)]) = Inr (0, 0)"
  by (simp add: analyze_environment_coordinates_def get_coordinate_def)

text \<open>
  C10, amended. A coordinate whose long key (\<^verbatim>\<open>latitude\<close>, \<^verbatim>\<open>longitude\<close>) is missing or
  0 is replaced by the default 40.7128 or -74.0060 when the body has no short key
  (\<^verbatim>\<open>lat\<close>, \<^verbatim>\<open>lon\<close>) for it, and the analysis runs for the substituted location; when
  the short key is present its value is used as it is, even 0.
\<close>

theorem zero_coordinate_replaced_by_default:
  "(\<forall>kvs lo.
        (map_of kvs ''latitude'' = None \<or> map_of kvs ''latitude'' = Some (JNum 0))
      \<and> map_of kvs ''lat'' = None
      \<and> map_of kvs ''longitude'' = Some (JNum lo) \<and> lo \<noteq> 0
      \<longrightarrow> analyze_environment_coordinates (JObj kvs) = Inr (40.7128, lo))
   \<and> (\<forall>kvs la.
        map_of kvs ''latitude'' = Some (JNum la) \<and> la \<noteq> 0
      \<and> (map_of kvs ''longitude'' = None \<or> map_of kvs ''longitude'' = Some (JNum 0))
      \<and> map_of kvs ''lon'' = None
      \<longrightarrow> analyze_environment_coordinates (JObj kvs) = Inr (la, - 74.0060))
   \<and> (\<forall>kvs.
        (map_of kvs ''latitude'' = None \<or> map_of kvs ''latitude'' = Some (JNum 0))
      \<and> map_of kvs ''lat'' = None
      \<and> (map_of kvs ''longitude'' = None \<or> map_of kvs ''longitude'' = Some (JNum 0))
      \<and> map_of kvs ''lon'' = None
      \<longrightarrow> analyze_environment_coordinates (JObj kvs) = Inr (40.7128, - 74.0060))
   \<and> (\<forall>kvs a lo.
        (map_of kvs ''latitude'' = None \<or> map_of kvs ''latitude'' = Some (JNum 0))
      \<and> map_of kvs ''lat'' = Some (JNum a)
      \<and> map_of kvs ''longitude'' = Some (JNum lo) \<and> lo \<noteq> 0
      \<longrightarrow> analyze_environment_coordinates (JObj kvs) = Inr (a, lo))
   \<and> (\<forall>kvs la b.
        map_of kvs ''latitude'' = Some (JNum la) \<and> la \<noteq> 0
      \<and> (map_of kvs ''longitude'' = None \<or> map_of kvs ''longitude'' = Some (JNum 0))
      \<and> map_of kvs ''lon'' = Some (JNum b)
      \<longrightarrow> analyze_environment_coordinates (JObj kvs) = Inr (la, b))"
  by (auto simp: analyze_environment_coordinates_def get_coordinate_def)

theorem zero_coordinate_replaced_by_default_witness:
  "analyze_environment_coordinates
      (JObj [(''latitude'', JNum 0), (''longitude'', JNum 10)]) = Inr (40.7128, 10)
   \<and> analyze_environment_coordinates
      (JObj [(''latitude'', JNum 51.5), (''longitude'', JNum 0)]) = Inr (51.5, - 74.0060)
   \<and> analyze_environment_coordinates (JObj [(''message'', JStr ''hello'')])
        = Inr (40.7128, - 74.0060)
   \<and> analyze_environment_coordinates
      (JObj [(''latitude'', JNum 0), (''lat'', JNum 12.5), (''longitude'', JNum 10)])
        = Inr (12.5, 10)
   \<and> analyze_environment_coordinates
      (JObj [(''latitude'', JNum 51.5), (''lon'', JNum 0)]) = Inr (51.5, 0)"
  using zero_coordinate_replaced_by_default
    [THEN conjunct1, rule_format,
     of "[(''latitude'', JNum 0), (''longitude'', JNum 10)]" 10]
    zero_coordinate_replaced_by_default
    [THEN conjunct2, THEN conjunct1, rule_format,
     of "[(''latitude'', JNum 51.5), (''longitude'', JNum 0)]" "51.5"]
    zero_coordinate_replaced_by_default
    [THEN conjunct2, THEN conjunct2, THEN conjunct1, rule_format,
     of "[(''message'', JStr ''hello'')]"]
    zero_coordinate_replaced_by_default
    [THEN conjunct2, THEN conjunct2, THEN conjunct2, THEN conjunct1, rule_format,
     of "[(''latitude'', JNum 0), (''lat'', JNum 12.5), (''longitude'', JNum 10)]" "12.5" 10]
    zero_coordinate_replaced_by_default
    [THEN conjunct2, THEN conjunct2, THEN conjunct2, THEN conjunct2, rule_format,
     of "[(''latitude'', JNum 51.5), (''lon'', JNum 0)]" "51.5" 0]
  by simp


end
